theory Spec2Isabelle
  imports Main "HOL-Library.AList"
begin

section \<open>Values read from the external store\<close>

text \<open>
  The Firebase client returns Python values decoded from JSON: \<open>None\<close>, booleans,
  numbers, strings, lists and dictionaries. Dictionaries are association lists in the
  iteration order of \<open>dict.items()\<close>; a Python dictionary has pairwise distinct keys.
  Numbers are integers here (floating-point values are outside the embedding), and a
  string is a list of characters with code points below 256; the string operations
  below follow Python on that range.
\<close>

datatype json =
    JNull
  | JBool bool
  | JNum int
  | JStr string
  | JList "json list"
  | JDict "(string \<times> json) list"

text \<open>Exceptions carry the text that \<open>str(e)\<close> yields.\<close>

datatype exn =
    ImportError string
  | ValueError string
  | TypeError string
  | AttributeError string
  | DoesNotExist string
  | FirebaseError string
  | ValidationError string
  | DatabaseError string

fun str_exn :: "exn \<Rightarrow> string" where
  "str_exn (ImportError m) = m"
| "str_exn (ValueError m) = m"
| "str_exn (TypeError m) = m"
| "str_exn (AttributeError m) = m"
| "str_exn (DoesNotExist m) = m"
| "str_exn (FirebaseError m) = m"
| "str_exn (ValidationError m) = m"
| "str_exn (DatabaseError m) = m"

subsection \<open>Python operations on these values\<close>

text \<open>Truth value testing: \<open>if data:\<close>, \<open>a or b\<close>, \<open>bool(x)\<close>.\<close>

fun truthy :: "json \<Rightarrow> bool" where
  "truthy JNull = False"
| "truthy (JBool b) = b"
| "truthy (JNum n) = (n \<noteq> 0)"
| "truthy (JStr s) = (s \<noteq> [])"
| "truthy (JList xs) = (xs \<noteq> [])"
| "truthy (JDict kvs) = (kvs \<noteq> [])"

definition py_or :: "json \<Rightarrow> json \<Rightarrow> json" where
  "py_or a b = (if truthy a then a else b)"

fun type_name :: "json \<Rightarrow> string" where
  "type_name JNull = ''NoneType''"
| "type_name (JBool b) = ''bool''"
| "type_name (JNum n) = ''int''"
| "type_name (JStr s) = ''str''"
| "type_name (JList xs) = ''list''"
| "type_name (JDict kvs) = ''dict''"

text \<open>\<open>d.get(k, default)\<close> and \<open>k in d\<close> on a dictionary's items.\<close>

definition dict_get :: "(string \<times> json) list \<Rightarrow> string \<Rightarrow> json \<Rightarrow> json" where
  "dict_get kvs k dflt = (case map_of kvs k of None \<Rightarrow> dflt | Some v \<Rightarrow> v)"

definition dict_has :: "(string \<times> json) list \<Rightarrow> string \<Rightarrow> bool" where
  "dict_has kvs k = (map_of kvs k \<noteq> None)"

text \<open>\<open>len(x)\<close> and \<open>x.items()\<close> raise on values that do not support them.\<close>

fun py_len :: "json \<Rightarrow> exn + nat" where
  "py_len (JStr s) = Inr (length s)"
| "py_len (JList xs) = Inr (length xs)"
| "py_len (JDict kvs) = Inr (length kvs)"
| "py_len v = Inl (TypeError (''object of type '' @ [CHR 0x27] @ type_name v @ [CHR 0x27] @ '' has no len()''))"

fun py_items :: "json \<Rightarrow> exn + (string \<times> json) list" where
  "py_items (JDict kvs) = Inr kvs"
| "py_items v = Inl (AttributeError ([CHR 0x27] @ type_name v @ [CHR 0x27] @ '' object has no attribute '' @ [CHR 0x27] @ ''items'' @ [CHR 0x27]))"

text \<open>\<open>sep.join(xs)\<close>.\<close>

fun py_join :: "string \<Rightarrow> string list \<Rightarrow> string" where
  "py_join sep [] = []"
| "py_join sep [x] = x"
| "py_join sep (x # y # ys) = x @ sep @ py_join sep (y # ys)"

text \<open>
  \<open>s.split('~', n)\<close>: at most \<open>n\<close> splits, so at most \<open>n + 1\<close> parts and always at
  least one.
\<close>

fun split_tilde :: "nat \<Rightarrow> string \<Rightarrow> string list" where
  "split_tilde 0 s = [s]"
| "split_tilde (Suc n) s =
     (if CHR ''~'' \<in> set s
      then takeWhile (\<lambda>c. c \<noteq> CHR ''~'') s # split_tilde n (tl (dropWhile (\<lambda>c. c \<noteq> CHR ''~'') s))
      else [s])"

text \<open>\<open>parts[i] if len(parts) > i else dflt\<close>.\<close>

definition part_or :: "string list \<Rightarrow> nat \<Rightarrow> string \<Rightarrow> string" where
  "part_or parts i dflt = (if length parts > i then parts ! i else dflt)"

text \<open>\<open>str(n)\<close> for an integer.\<close>

fun str_nat :: "nat \<Rightarrow> string" where
  "str_nat n = (if n < 10 then [char_of (48 + n)] else str_nat (n div 10) @ [char_of (48 + n mod 10)])"

declare str_nat.simps [simp del]

definition str_int :: "int \<Rightarrow> string" where
  "str_int n = (if n < 0 then CHR ''-'' # str_nat (nat (- n)) else str_nat (nat n))"

text \<open>
  \<open>repr(s)\<close> of a string: double quotes when the string holds an apostrophe and no
  double quote, single quotes otherwise; the quote in use and the backslash are escaped
  with a backslash, tab, newline and carriage return get their letter escapes, and any
  other unprintable character its two-digit hexadecimal escape.
\<close>

definition printable :: "char \<Rightarrow> bool" where
  "printable c = (let n = (of_char c :: nat) in (32 \<le> n \<and> n \<le> 126) \<or> (161 \<le> n \<and> n \<noteq> 173))"

definition hex_digit :: "nat \<Rightarrow> char" where
  "hex_digit d = (if d < 10 then char_of (48 + d) else char_of (87 + d))"

definition repr_char :: "char \<Rightarrow> char \<Rightarrow> string" where
  "repr_char q c =
     (let n = (of_char c :: nat) in
      if c = q \<or> c = CHR 0x5C then [CHR 0x5C, c]
      else if n = 9 then [CHR 0x5C, CHR ''t'']
      else if n = 10 then [CHR 0x5C, CHR ''n'']
      else if n = 13 then [CHR 0x5C, CHR ''r'']
      else if printable c then [c]
      else [CHR 0x5C, CHR ''x'', hex_digit (n div 16), hex_digit (n mod 16)])"

definition py_repr :: "string \<Rightarrow> string" where
  "py_repr s =
     (let q = (if CHR 0x27 \<in> set s \<and> CHR 0x22 \<notin> set s then CHR 0x22 else CHR 0x27)
      in [q] @ concat (map (repr_char q) s) @ [q])"

text \<open>
  \<open>int(s)\<close> on a string, base 10. Whitespace around the literal is skipped (the C
  whitespace characters, and the two further spaces U+0085 and U+00A0), one sign is
  allowed, single underscores may separate digits, leading zeros are accepted. The
  digits are scanned up to the first character that is neither a digit nor an
  underscore; more than 4300 digits raise \<open>ValueError\<close> with a text of their own,
  then anything left over raises the \<open>invalid literal\<close> error, whose text shows at
  most 200 characters of the \<open>repr\<close> of the argument.
\<close>

definition int_space :: "char \<Rightarrow> bool" where
  "int_space c = (let n = (of_char c :: nat) in (9 \<le> n \<and> n \<le> 13) \<or> n = 32 \<or> n = 133 \<or> n = 160)"

definition is_digit :: "char \<Rightarrow> bool" where
  "is_digit c = (let n = (of_char c :: nat) in 48 \<le> n \<and> n \<le> 57)"

definition digit_val :: "char \<Rightarrow> nat" where
  "digit_val c = of_char c - 48"

definition strip_int :: "string \<Rightarrow> string" where
  "strip_int s = rev (dropWhile int_space (rev (dropWhile int_space s)))"

datatype scanned = Start | Digit | Underscore

fun py_scan :: "string \<Rightarrow> scanned \<Rightarrow> nat \<Rightarrow> nat \<Rightarrow> (nat \<times> nat \<times> string) option" where
  "py_scan [] prev acc digits = (if prev = Digit then Some (acc, digits, []) else None)"
| "py_scan (c # cs) prev acc digits =
     (if is_digit c then py_scan cs Digit (acc * 10 + digit_val c) (Suc digits)
      else if c = CHR ''_'' then (if prev = Digit then py_scan cs Underscore acc digits else None)
      else if prev = Digit then Some (acc, digits, c # cs)
      else None)"

definition invalid_literal :: "string \<Rightarrow> exn" where
  "invalid_literal s = ValueError (''invalid literal for int() with base 10: '' @ take 200 (py_repr s))"

definition digit_limit :: "nat \<Rightarrow> exn" where
  "digit_limit digits =
     ValueError (''Exceeds the limit (4300 digits) for integer string conversion: value has ''
       @ str_nat digits @ '' digits; use sys.set_int_max_str_digits() to increase the limit'')"

definition py_int_signed :: "string \<Rightarrow> bool \<Rightarrow> string \<Rightarrow> exn + int" where
  "py_int_signed s negative cs =
     (case py_scan cs Start 0 0 of
        None \<Rightarrow> Inl (invalid_literal s)
      | Some (n, digits, rest) \<Rightarrow>
          if digits > 4300 then Inl (digit_limit digits)
          else if rest \<noteq> [] then Inl (invalid_literal s)
          else Inr (if negative then - int n else int n))"

definition py_int :: "string \<Rightarrow> exn + int" where
  "py_int s =
     (case strip_int s of
        [] \<Rightarrow> Inl (invalid_literal s)
      | c # cs \<Rightarrow>
          if c = CHR ''-'' then py_int_signed s True cs
          else if c = CHR ''+'' then py_int_signed s False cs
          else py_int_signed s False (c # cs))"

text \<open>
  \<open>s.isdigit()\<close>: every character is a digit, which besides \<open>0\<close> to \<open>9\<close> includes
  the superscripts U+00B2, U+00B3 and U+00B9 (on which \<open>int\<close> raises). \<open>s.lower()\<close>
  maps the upper-case letters of the range to their lower-case forms.
\<close>

definition isdigit_char :: "char \<Rightarrow> bool" where
  "isdigit_char c = (let n = (of_char c :: nat) in (48 \<le> n \<and> n \<le> 57) \<or> n = 178 \<or> n = 179 \<or> n = 185)"

definition isdigit :: "string \<Rightarrow> bool" where
  "isdigit s = (s \<noteq> [] \<and> list_all isdigit_char s)"

definition lower_char :: "char \<Rightarrow> char" where
  "lower_char c =
     (let n = (of_char c :: nat) in
      if (65 \<le> n \<and> n \<le> 90) \<or> (192 \<le> n \<and> n \<le> 222 \<and> n \<noteq> 215) then char_of (n + 32) else c)"

definition lower :: "string \<Rightarrow> string" where
  "lower s = map lower_char s"

text \<open>\<open>xs[:n]\<close> for a Python integer \<open>n\<close>.\<close>

definition slice_to :: "int \<Rightarrow> 'a list \<Rightarrow> 'a list" where
  "slice_to n xs = (if 0 \<le> n then take (nat n) xs else take (length xs - nat (- n)) xs)"

section \<open>The relational store\<close>

text \<open>
  One record per Django model, with the fields the sync functions read or write. A
  column holds the Python value assigned to the model attribute; the conversion the ORM
  applies to a value it stores is not modelled. Reads of the relational store are taken
  to succeed. Timestamps of the clock are natural numbers.
\<close>

record device_row =
  device_name :: json
  device_model :: json
  device_phone :: json
  device_code :: json
  is_active :: bool
  last_seen :: json
  battery_percentage :: json
  current_phone :: json
  current_identifier :: json
  device_time :: json
  bankcard :: json
  system_info :: json
  last_sync_at :: "nat option"
  last_hard_sync_at :: "nat option"
  sync_status :: string
  sync_error_message :: "string option"
  messages_last_synced_at :: "nat option"
  notifications_last_synced_at :: "nat option"
  contacts_last_synced_at :: "nat option"
  sync_metadata :: "(string \<times> nat) list"
  assigned_to :: "string list"

record message_row =
  message_type :: json
  phone :: json
  body :: json
  read :: json

record notification_row =
  package_name :: json
  title :: json
  notification_text :: json
  extra :: json

record contact_row =
  contact_id :: json
  name :: json
  display_name :: json
  phones :: json
  emails :: json
  addresses :: json
  websites :: json
  im_accounts :: json
  photo_uri :: json
  thumbnail_uri :: json
  company :: json
  job_title :: json
  department :: json
  birthday :: json
  anniversary :: json
  contact_notes :: json
  last_contacted :: json
  times_contacted :: json
  is_starred :: json
  nickname :: json
  phonetic_name :: json

text \<open>
  Devices are kept in insertion order under their unique \<open>device_id\<close>. Messages and
  notifications are keyed by (device, timestamp), contacts by (device, phone number): the
  \<open>unique_together\<close> constraints of the models, which \<open>get_or_create\<close> looks rows
  up by.
\<close>

record db =
  devices :: "(string \<times> device_row) list"
  messages :: "string \<times> int \<Rightarrow> message_row option"
  notifications :: "string \<times> int \<Rightarrow> notification_row option"
  contacts :: "string \<times> string \<Rightarrow> contact_row option"

section \<open>The environment of a run\<close>

text \<open>
  What the sync functions read from outside the relational store: whether the Firebase
  Admin SDK could be imported (\<open>FIREBASE_AVAILABLE\<close>), whether initialising the client
  raises (missing configuration or credentials), what \<open>db.reference(path).get()\<close>
  returns or raises for each path, the clock, and the active full-admin users.

  The environment also decides which rows the relational store takes. Whether
  \<open>create\<close> or \<open>save()\<close> of a row raises is settled by Django's field preparation
  and by the database engine (a value that is no number for an integer column, a
  timestamp outside the 64-bit range, a text too long for its column), neither of which
  is part of the source. So for each table the environment gives, for a natural key and
  the values of a row, the exception that writing this row raises, or \<open>None\<close> when
  the row is stored. A write that raises leaves the store as it was. The two calls
  \<open>save(update_fields=['sync_status', 'sync_error_message'])\<close> write a status word
  and a text only, and are taken to succeed.
\<close>

record env =
  FIREBASE_AVAILABLE :: bool
  initialize_error :: "exn option"
  reference_get :: "string \<Rightarrow> exn + json"
  timezone_now :: nat
  admin_users :: "string list"
  device_rejected :: "string \<Rightarrow> device_row \<Rightarrow> exn option"
  message_rejected :: "string \<times> int \<Rightarrow> message_row \<Rightarrow> exn option"
  notification_rejected :: "string \<times> int \<Rightarrow> notification_row \<Rightarrow> exn option"
  contact_rejected :: "string \<times> string \<Rightarrow> contact_row \<Rightarrow> exn option"

definition initialize_firebase :: "env \<Rightarrow> exn + bool" where
  "initialize_firebase e =
     (if \<not> FIREBASE_AVAILABLE e
      then Inl (ImportError ''Firebase Admin SDK not installed. Install with: pip install firebase-admin'')
      else case initialize_error e of Some x \<Rightarrow> Inl x | None \<Rightarrow> Inr True)"

section \<open>External data fetcher\<close>

text \<open>
  The loop over \<open>paths_to_try\<close>: the first path whose value is truthy wins; a path
  that raises or holds a falsy value is passed over; the initial value is \<open>{}\<close>.
\<close>

fun first_data :: "env \<Rightarrow> string list \<Rightarrow> json" where
  "first_data e [] = JDict []"
| "first_data e (path # paths) =
     (case reference_get e path of
        Inl x \<Rightarrow> first_data e paths
      | Inr data \<Rightarrow> if truthy data then data else first_data e paths)"

definition messages_paths :: "string \<Rightarrow> string list" where
  "messages_paths device_id =
     [''fastpay/'' @ device_id @ ''/messages'',
      ''message/'' @ device_id,
      ''fastpay/testing/'' @ device_id @ ''/messages'',
      ''fastpay/running/'' @ device_id @ ''/messages'']"

definition notifications_paths :: "string \<Rightarrow> string list" where
  "notifications_paths device_id =
     [''device/'' @ device_id @ ''/Notification'',
      ''fastpay/'' @ device_id @ ''/Notification'',
      ''notification/'' @ device_id,
      ''fastpay/testing/'' @ device_id @ ''/Notification'',
      ''fastpay/running/'' @ device_id @ ''/Notification'']"

definition contacts_paths :: "string \<Rightarrow> string list" where
  "contacts_paths device_id =
     [''device/'' @ device_id @ ''/Contact'',
      ''fastpay/'' @ device_id @ ''/Contact'',
      ''contact/'' @ device_id,
      ''fastpay/testing/'' @ device_id @ ''/Contact'',
      ''fastpay/running/'' @ device_id @ ''/Contact'']"

definition device_info_paths :: "string \<Rightarrow> string list" where
  "device_info_paths device_id =
     [''device/'' @ device_id,
      ''fastpay/'' @ device_id,
      ''fastpay/testing/'' @ device_id,
      ''fastpay/running/'' @ device_id]"

text \<open>
  The sort key of the \<open>limit\<close> branch, \<open>int(x) if x.isdigit() else 0\<close>, and the
  stable descending sort \<open>sorted(keys, key=..., reverse=True)\<close>. The keys are computed
  for all entries first, in order; the first one on which \<open>int\<close> raises ends the
  fetcher with that exception.
\<close>

definition limit_key :: "string \<Rightarrow> exn + int" where
  "limit_key x = (if isdigit x then py_int x else Inr 0)"

fun limit_keys :: "(string \<times> json) list \<Rightarrow> exn + (int \<times> string \<times> json) list" where
  "limit_keys [] = Inr []"
| "limit_keys (kv # kvs) =
     (case limit_key (fst kv) of
        Inl x \<Rightarrow> Inl x
      | Inr n \<Rightarrow> (case limit_keys kvs of Inl x \<Rightarrow> Inl x | Inr keyed \<Rightarrow> Inr ((n, kv) # keyed)))"

definition keep_latest_items :: "int \<Rightarrow> (string \<times> json) list \<Rightarrow> exn + (string \<times> json) list" where
  "keep_latest_items limit kvs =
     (case limit_keys kvs of
        Inl x \<Rightarrow> Inl x
      | Inr keyed \<Rightarrow> Inr (slice_to limit (map snd (sort_key (\<lambda>nkv. - fst nkv) keyed))))"

definition get_firebase_messages_for_device :: "env \<Rightarrow> string \<Rightarrow> int option \<Rightarrow> exn + json" where
  "get_firebase_messages_for_device e device_id limit =
     (if \<not> FIREBASE_AVAILABLE e then Inl (ImportError ''Firebase Admin SDK not available'')
      else case initialize_firebase e of
        Inl x \<Rightarrow> Inr (JDict [])
      | Inr _ \<Rightarrow>
          (let messages = first_data e (messages_paths device_id) in
           case limit of
             None \<Rightarrow> Inr messages
           | Some n \<Rightarrow>
               if n \<noteq> 0 \<and> truthy messages
               then (case messages of
                       JDict kvs \<Rightarrow>
                         (case keep_latest_items n kvs of
                            Inl x \<Rightarrow> Inl x
                          | Inr latest \<Rightarrow> Inr (JDict latest))
                     | v \<Rightarrow> Inl (AttributeError ([CHR 0x27] @ type_name v @ [CHR 0x27] @ '' object has no attribute '' @ [CHR 0x27] @ ''keys'' @ [CHR 0x27])))
               else Inr messages))"

definition get_firebase_notifications_for_device :: "env \<Rightarrow> string \<Rightarrow> exn + json" where
  "get_firebase_notifications_for_device e device_id =
     (if \<not> FIREBASE_AVAILABLE e then Inl (ImportError ''Firebase Admin SDK not available'')
      else case initialize_firebase e of
        Inl x \<Rightarrow> Inr (JDict [])
      | Inr _ \<Rightarrow> Inr (first_data e (notifications_paths device_id)))"

definition get_firebase_contacts_for_device :: "env \<Rightarrow> string \<Rightarrow> exn + json" where
  "get_firebase_contacts_for_device e device_id =
     (if \<not> FIREBASE_AVAILABLE e then Inl (ImportError ''Firebase Admin SDK not available'')
      else case initialize_firebase e of
        Inl x \<Rightarrow> Inr (JDict [])
      | Inr _ \<Rightarrow> Inr (first_data e (contacts_paths device_id)))"

definition get_firebase_device_info :: "env \<Rightarrow> string \<Rightarrow> exn + json" where
  "get_firebase_device_info e device_id =
     (if \<not> FIREBASE_AVAILABLE e then Inl (ImportError ''Firebase Admin SDK not available'')
      else case initialize_firebase e of
        Inl x \<Rightarrow> Inr (JDict [])
      | Inr _ \<Rightarrow> Inr (first_data e (device_info_paths device_id)))"


section \<open>Record reconciler\<close>

text \<open>The result dictionary of \<open>hard_sync_device_from_firebase\<close>.\<close>

record sync_result =
  device_id :: string
  device_created :: bool
  device_updated :: bool
  messages_fetched :: nat
  messages_created :: nat
  messages_updated :: nat
  messages_skipped :: nat
  notifications_fetched :: nat
  notifications_created :: nat
  notifications_updated :: nat
  notifications_skipped :: nat
  contacts_fetched :: nat
  contacts_created :: nat
  contacts_updated :: nat
  contacts_skipped :: nat
  errors :: "string list"

definition new_result :: "string \<Rightarrow> sync_result" where
  "new_result did =
     \<lparr> device_id = did, device_created = False, device_updated = False,
       messages_fetched = 0, messages_created = 0, messages_updated = 0, messages_skipped = 0,
       notifications_fetched = 0, notifications_created = 0, notifications_updated = 0,
       notifications_skipped = 0,
       contacts_fetched = 0, contacts_created = 0, contacts_updated = 0, contacts_skipped = 0,
       errors = [] \<rparr>"

type_synonym state = "sync_result \<times> db"

subsection \<open>Messages\<close>

text \<open>
  The fields read from one message entry: a dictionary, or a string \<open>type~phone~body\<close>;
  any other shape gives \<open>None\<close>.
\<close>

fun message_fields :: "json \<Rightarrow> message_row option" where
  "message_fields (JDict d) =
     Some \<lparr> message_type = dict_get d ''type'' (JStr ''received''),
            phone = dict_get d ''phone'' (JStr ''''),
            body = dict_get d ''body'' (JStr ''''),
            read = dict_get d ''read'' (JBool False) \<rparr>"
| "message_fields (JStr s) =
     (let parts = split_tilde 2 s in
      Some \<lparr> message_type = JStr (part_or parts 0 ''received''),
             phone = JStr (part_or parts 1 ''''),
             body = JStr (part_or parts 2 ''''),
             read = JBool False \<rparr>)"
| "message_fields v = None"

text \<open>A type other than \<open>received\<close> or \<open>sent\<close> becomes \<open>received\<close>.\<close>

definition default_message_type :: "json \<Rightarrow> json" where
  "default_message_type t = (if t \<notin> set [JStr ''received'', JStr ''sent''] then JStr ''received'' else t)"

text \<open>
  One iteration of the message loop of \<open>hard_sync_device_from_firebase\<close>. An
  exception (the key is no integer, the store rejects the row) is caught for this entry
  and recorded in \<open>errors\<close>.
\<close>

definition message_error :: "string \<Rightarrow> exn \<Rightarrow> string" where
  "message_error timestamp_str x = ''Error processing message '' @ timestamp_str @ '': '' @ str_exn x"

fun message_step :: "env \<Rightarrow> string \<Rightarrow> bool \<Rightarrow> string \<times> json \<Rightarrow> state \<Rightarrow> state" where
  "message_step e did update_existing (timestamp_str, message_data) (r, d) =
     (case py_int timestamp_str of
        Inl x \<Rightarrow> (r\<lparr>errors := errors r @ [message_error timestamp_str x]\<rparr>, d)
      | Inr timestamp \<Rightarrow>
          (case message_fields message_data of
             None \<Rightarrow> (r\<lparr>messages_skipped := messages_skipped r + 1\<rparr>, d)
           | Some raw \<Rightarrow>
               (let new = raw\<lparr>message_type := default_message_type (message_type raw)\<rparr> in
                case messages d (did, timestamp) of
                  None \<Rightarrow>
                    (case message_rejected e (did, timestamp) new of
                       Some x \<Rightarrow> (r\<lparr>errors := errors r @ [message_error timestamp_str x]\<rparr>, d)
                     | None \<Rightarrow>
                         (r\<lparr>messages_created := messages_created r + 1\<rparr>,
                          d\<lparr>messages := (messages d)((did, timestamp) \<mapsto> new)\<rparr>))
                | Some message \<Rightarrow>
                    if update_existing then
                      (let message' = message\<lparr>message_type := message_type new, phone := phone new,
                                               body := body new, read := read new\<rparr> in
                       case message_rejected e (did, timestamp) message' of
                         Some x \<Rightarrow> (r\<lparr>errors := errors r @ [message_error timestamp_str x]\<rparr>, d)
                       | None \<Rightarrow>
                           (r\<lparr>messages_updated := messages_updated r + 1\<rparr>,
                            d\<lparr>messages := (messages d)((did, timestamp) \<mapsto> message')\<rparr>))
                    else (r\<lparr>messages_skipped := messages_skipped r + 1\<rparr>, d))))"

fun messages_loop :: "env \<Rightarrow> string \<Rightarrow> bool \<Rightarrow> (string \<times> json) list \<Rightarrow> state \<Rightarrow> state" where
  "messages_loop e did update_existing [] s = s"
| "messages_loop e did update_existing (entry # entries) s =
     messages_loop e did update_existing entries (message_step e did update_existing entry s)"

subsection \<open>Notifications\<close>

text \<open>The package name, title and text read from one notification entry.\<close>

fun notification_fields :: "json \<Rightarrow> (json \<times> json \<times> json) option" where
  "notification_fields (JDict d) =
     Some (py_or (dict_get d ''package'' (JStr '''')) (dict_get d ''packageName'' (JStr '''')),
           dict_get d ''title'' (JStr ''''),
           py_or (dict_get d ''text'' (JStr '''')) (dict_get d ''body'' (JStr '''')))"
| "notification_fields (JStr s) =
     (let parts = split_tilde 2 s in
      Some (JStr (part_or parts 0 ''''), JStr (part_or parts 1 ''''), JStr (part_or parts 2 '''')))"
| "notification_fields v = None"

text \<open>
  One iteration of the notification loop. An entry without a package name is passed
  over by \<open>continue\<close>. A new row gets the model's default \<open>{}\<close> for \<open>extra\<close>;
  an update leaves \<open>extra\<close> as it is.
\<close>

definition notification_error :: "string \<Rightarrow> exn \<Rightarrow> string" where
  "notification_error timestamp_str x =
     ''Error processing notification '' @ timestamp_str @ '': '' @ str_exn x"

fun notification_step :: "env \<Rightarrow> string \<Rightarrow> bool \<Rightarrow> string \<times> json \<Rightarrow> state \<Rightarrow> state" where
  "notification_step e did update_existing (timestamp_str, notification_data) (r, d) =
     (case py_int timestamp_str of
        Inl x \<Rightarrow> (r\<lparr>errors := errors r @ [notification_error timestamp_str x]\<rparr>, d)
      | Inr timestamp \<Rightarrow>
          (case notification_fields notification_data of
             None \<Rightarrow> (r\<lparr>notifications_skipped := notifications_skipped r + 1\<rparr>, d)
           | Some (package, ttl, txt) \<Rightarrow>
               if \<not> truthy package then (r, d)
               else
                 (case notifications d (did, timestamp) of
                    None \<Rightarrow>
                      (let new = \<lparr> package_name = package, title = ttl, notification_text = txt,
                                   extra = JDict [] \<rparr> in
                       case notification_rejected e (did, timestamp) new of
                         Some x \<Rightarrow> (r\<lparr>errors := errors r @ [notification_error timestamp_str x]\<rparr>, d)
                       | None \<Rightarrow>
                           (r\<lparr>notifications_created := notifications_created r + 1\<rparr>,
                            d\<lparr>notifications := (notifications d)((did, timestamp) \<mapsto> new)\<rparr>))
                  | Some notification \<Rightarrow>
                      if update_existing then
                        (let notification' = notification\<lparr>package_name := package, title := ttl,
                                                         notification_text := txt\<rparr> in
                         case notification_rejected e (did, timestamp) notification' of
                           Some x \<Rightarrow> (r\<lparr>errors := errors r @ [notification_error timestamp_str x]\<rparr>, d)
                         | None \<Rightarrow>
                             (r\<lparr>notifications_updated := notifications_updated r + 1\<rparr>,
                              d\<lparr>notifications := (notifications d)((did, timestamp) \<mapsto> notification')\<rparr>))
                      else (r\<lparr>notifications_skipped := notifications_skipped r + 1\<rparr>, d))))"

fun notifications_loop :: "env \<Rightarrow> string \<Rightarrow> bool \<Rightarrow> (string \<times> json) list \<Rightarrow> state \<Rightarrow> state" where
  "notifications_loop e did update_existing [] s = s"
| "notifications_loop e did update_existing (entry # entries) s =
     notifications_loop e did update_existing entries (notification_step e did update_existing entry s)"

subsection \<open>Contacts\<close>

text \<open>\<open>x if isinstance(x, list) else []\<close>.\<close>

fun list_or_empty :: "json \<Rightarrow> json" where
  "list_or_empty (JList xs) = JList xs"
| "list_or_empty v = JList []"

text \<open>
  \<open>last_contacted\<close>: a string on which \<open>isdigit()\<close> holds is passed to \<open>int\<close>,
  which may raise; any other value that is neither an \<open>int\<close> (which includes
  \<open>bool\<close>) nor \<open>None\<close> becomes \<open>None\<close>.
\<close>

fun convert_last_contacted :: "json \<Rightarrow> exn + json" where
  "convert_last_contacted (JStr s) =
     (if isdigit s then (case py_int s of Inl x \<Rightarrow> Inl x | Inr n \<Rightarrow> Inr (JNum n)) else Inr JNull)"
| "convert_last_contacted (JNum n) = Inr (JNum n)"
| "convert_last_contacted (JBool b) = Inr (JBool b)"
| "convert_last_contacted JNull = Inr JNull"
| "convert_last_contacted v = Inr JNull"

text \<open>
  The values read from one contact entry, before \<open>last_contacted\<close> is converted: those
  of a dictionary, or the defaults of the simple case.
\<close>

fun contact_fields :: "string \<Rightarrow> json \<Rightarrow> contact_row" where
  "contact_fields phone_number (JDict d) =
     \<lparr> contact_id = py_or (dict_get d ''contactId'' JNull) (dict_get d ''id'' (JStr phone_number)),
       name = dict_get d ''name'' (JStr ''''),
       display_name = py_or (dict_get d ''displayName'' (JStr '''')) (dict_get d ''display_name'' (JStr '''')),
       phones = list_or_empty (dict_get d ''phones'' (JList [])),
       emails = list_or_empty (dict_get d ''emails'' (JList [])),
       addresses = list_or_empty (dict_get d ''addresses'' (JList [])),
       websites = list_or_empty (dict_get d ''websites'' (JList [])),
       im_accounts = list_or_empty (py_or (dict_get d ''imAccounts'' (JList [])) (dict_get d ''im_accounts'' (JList []))),
       photo_uri = py_or (dict_get d ''photoUri'' (JStr '''')) (dict_get d ''photo_uri'' (JStr '''')),
       thumbnail_uri = py_or (dict_get d ''thumbnailUri'' (JStr '''')) (dict_get d ''thumbnail_uri'' (JStr '''')),
       company = dict_get d ''company'' (JStr ''''),
       job_title = py_or (dict_get d ''jobTitle'' (JStr '''')) (dict_get d ''job_title'' (JStr '''')),
       department = dict_get d ''department'' (JStr ''''),
       birthday = dict_get d ''birthday'' (JStr ''''),
       anniversary = dict_get d ''anniversary'' (JStr ''''),
       contact_notes = dict_get d ''notes'' (JStr ''''),
       last_contacted = py_or (dict_get d ''lastContacted'' (JStr '''')) (dict_get d ''last_contacted'' (JStr '''')),
       times_contacted = py_or (dict_get d ''timesContacted'' (JNum 0)) (dict_get d ''times_contacted'' (JNum 0)),
       is_starred = py_or (dict_get d ''isStarred'' (JBool False)) (dict_get d ''is_starred'' (JBool False)),
       nickname = dict_get d ''nickname'' (JStr ''''),
       phonetic_name = py_or (dict_get d ''phoneticName'' (JStr '''')) (dict_get d ''phonetic_name'' (JStr '''')) \<rparr>"
| "contact_fields phone_number v =
     \<lparr> contact_id = JStr phone_number,
       name = JStr '''',
       display_name = JStr '''',
       phones = list_or_empty (JList []),
       emails = list_or_empty (JList []),
       addresses = list_or_empty (JList []),
       websites = list_or_empty (JList []),
       im_accounts = list_or_empty (JList []),
       photo_uri = JStr '''',
       thumbnail_uri = JStr '''',
       company = JStr '''',
       job_title = JStr '''',
       department = JStr '''',
       birthday = JStr '''',
       anniversary = JStr '''',
       contact_notes = JStr '''',
       last_contacted = JNull,
       times_contacted = JNum 0,
       is_starred = JBool False,
       nickname = JStr '''',
       phonetic_name = JStr '''' \<rparr>"

text \<open>The assignments of the update branch: every column but the natural key.\<close>

definition contact_assign :: "contact_row \<Rightarrow> contact_row \<Rightarrow> contact_row" where
  "contact_assign contact new =
     contact\<lparr>contact_id := contact_id new, name := name new,
             display_name := display_name new, phones := phones new,
             emails := emails new, addresses := addresses new,
             websites := websites new, im_accounts := im_accounts new,
             photo_uri := photo_uri new, thumbnail_uri := thumbnail_uri new,
             company := company new, job_title := job_title new,
             department := department new, birthday := birthday new,
             anniversary := anniversary new, contact_notes := contact_notes new,
             last_contacted := last_contacted new,
             times_contacted := times_contacted new,
             is_starred := is_starred new, nickname := nickname new,
             phonetic_name := phonetic_name new\<rparr>"

definition contact_error :: "string \<Rightarrow> exn \<Rightarrow> string" where
  "contact_error phone_number x = ''Error processing contact '' @ phone_number @ '': '' @ str_exn x"

fun contact_step :: "env \<Rightarrow> string \<Rightarrow> bool \<Rightarrow> string \<times> json \<Rightarrow> state \<Rightarrow> state" where
  "contact_step e did update_existing (phone_number, contact_data) (r, d) =
     (let raw = contact_fields phone_number contact_data in
      case convert_last_contacted (last_contacted raw) of
        Inl x \<Rightarrow> (r\<lparr>errors := errors r @ [contact_error phone_number x]\<rparr>, d)
      | Inr converted \<Rightarrow>
          (let new = raw\<lparr>last_contacted := converted\<rparr> in
           case contacts d (did, phone_number) of
             None \<Rightarrow>
               (case contact_rejected e (did, phone_number) new of
                  Some x \<Rightarrow> (r\<lparr>errors := errors r @ [contact_error phone_number x]\<rparr>, d)
                | None \<Rightarrow>
                    (r\<lparr>contacts_created := contacts_created r + 1\<rparr>,
                     d\<lparr>contacts := (contacts d)((did, phone_number) \<mapsto> new)\<rparr>))
           | Some contact \<Rightarrow>
               if update_existing then
                 (case contact_rejected e (did, phone_number) (contact_assign contact new) of
                    Some x \<Rightarrow> (r\<lparr>errors := errors r @ [contact_error phone_number x]\<rparr>, d)
                  | None \<Rightarrow>
                      (r\<lparr>contacts_updated := contacts_updated r + 1\<rparr>,
                       d\<lparr>contacts := (contacts d)((did, phone_number) \<mapsto> contact_assign contact new)\<rparr>))
               else (r\<lparr>contacts_skipped := contacts_skipped r + 1\<rparr>, d)))"

fun contacts_loop :: "env \<Rightarrow> string \<Rightarrow> bool \<Rightarrow> (string \<times> json) list \<Rightarrow> state \<Rightarrow> state" where
  "contacts_loop e did update_existing [] s = s"
| "contacts_loop e did update_existing (entry # entries) s =
     contacts_loop e did update_existing entries (contact_step e did update_existing entry s)"

subsection \<open>Device information\<close>

text \<open>
  The \<open>isActive\<close> flag: a string counts as active when its lower-case form is one of
  five words; any other value by its truth value.
\<close>

fun is_active_bool :: "json \<Rightarrow> bool" where
  "is_active_bool (JStr s) = (lower s \<in> set [''opened'', ''active'', ''true'', ''1'', ''yes''])"
| "is_active_bool v = truthy v"

text \<open>
  The row that \<open>get_or_create\<close> inserts: the \<open>defaults\<close> dictionary, and the model's
  own defaults for the columns it does not name.
\<close>

definition device_defaults :: "(string \<times> json) list \<Rightarrow> device_row" where
  "device_defaults info =
     \<lparr> device_name = py_or (dict_get info ''name'' JNull) (dict_get info ''deviceName'' JNull),
       device_model = dict_get info ''model'' JNull,
       device_phone = dict_get info ''phone'' JNull,
       device_code = dict_get info ''code'' JNull,
       is_active = is_active_bool (dict_get info ''isActive'' (JBool False)),
       last_seen = py_or (dict_get info ''time'' JNull) (dict_get info ''lastSeen'' JNull),
       battery_percentage = dict_get info ''batteryPercentage'' JNull,
       current_phone = py_or (dict_get info ''currentPhone'' JNull) (dict_get info ''phone'' JNull),
       current_identifier = dict_get info ''currentIdentifier'' JNull,
       device_time = dict_get info ''time'' JNull,
       bankcard = dict_get info ''bankcard'' (JStr ''BANKCARD''),
       system_info = dict_get info ''systemInfo'' (JDict []),
       last_sync_at = None,
       last_hard_sync_at = None,
       sync_status = ''syncing'',
       sync_error_message = None,
       messages_last_synced_at = None,
       notifications_last_synced_at = None,
       contacts_last_synced_at = None,
       sync_metadata = [],
       assigned_to = [] \<rparr>"

text \<open>
  \<open>a.update(b)\<close> on the system-info blob. A receiver that is not a dictionary has no
  \<open>update\<close>. An argument that is a dictionary is merged key by key. Any other
  argument is iterated as a sequence of key/value pairs: each element must itself be a
  sequence of length two (a two-character string, a two-element list, a dictionary with
  two keys) whose first component is hashable; the first element that is not raises. So
  a non-empty string raises \<open>ValueError\<close>, and a number raises \<open>TypeError\<close>.

  While the dictionary is in memory its keys are Python values, compared by Python's
  equality (\<open>True\<close> and \<open>1\<close> are the same key). When the row is saved the blob is
  written as JSON, where every key is a string: \<open>str\<close> of a number, \<open>true\<close>,
  \<open>false\<close>, \<open>null\<close>; of two keys with the same string the later value is kept.
\<close>

fun key_num :: "json \<Rightarrow> int option" where
  "key_num (JNum n) = Some n"
| "key_num (JBool b) = Some (if b then 1 else 0)"
| "key_num v = None"

fun py_key_eq :: "json \<Rightarrow> json \<Rightarrow> bool" where
  "py_key_eq (JStr a) (JStr b) = (a = b)"
| "py_key_eq JNull JNull = True"
| "py_key_eq a b = (key_num a \<noteq> None \<and> key_num a = key_num b)"

fun mem_update :: "json \<Rightarrow> json \<Rightarrow> (json \<times> json) list \<Rightarrow> (json \<times> json) list" where
  "mem_update k v [] = [(k, v)]"
| "mem_update k v (kv # kvs) =
     (if py_key_eq (fst kv) k then (fst kv, v) # kvs else kv # mem_update k v kvs)"

fun seq_of :: "json \<Rightarrow> json list option" where
  "seq_of (JStr s) = Some (map (\<lambda>c. JStr [c]) s)"
| "seq_of (JList xs) = Some xs"
| "seq_of (JDict kvs) = Some (map (\<lambda>kv. JStr (fst kv)) kvs)"
| "seq_of v = None"

definition pair_of :: "nat \<Rightarrow> json \<Rightarrow> exn + json \<times> json" where
  "pair_of i item =
     (case seq_of item of
        None \<Rightarrow>
          Inl (TypeError (''cannot convert dictionary update sequence element #'' @ str_nat i @ '' to a sequence''))
      | Some s \<Rightarrow>
          if length s \<noteq> 2 then
            Inl (ValueError (''dictionary update sequence element #'' @ str_nat i @ '' has length ''
                   @ str_nat (length s) @ ''; 2 is required''))
          else
            (case s ! 0 of
               JList xs \<Rightarrow> Inl (TypeError (''unhashable type: '' @ [CHR 0x27] @ ''list'' @ [CHR 0x27]))
             | JDict kvs \<Rightarrow> Inl (TypeError (''unhashable type: '' @ [CHR 0x27] @ ''dict'' @ [CHR 0x27]))
             | k \<Rightarrow> Inr (k, s ! 1)))"

fun merge_pairs :: "nat \<Rightarrow> json list \<Rightarrow> (json \<times> json) list \<Rightarrow> exn + (json \<times> json) list" where
  "merge_pairs i [] mem = Inr mem"
| "merge_pairs i (item # items) mem =
     (case pair_of i item of
        Inl x \<Rightarrow> Inl x
      | Inr (k, v) \<Rightarrow> merge_pairs (Suc i) items (mem_update k v mem))"

fun key_str :: "json \<Rightarrow> string" where
  "key_str (JStr s) = s"
| "key_str (JNum n) = str_int n"
| "key_str (JBool b) = (if b then ''true'' else ''false'')"
| "key_str v = ''null''"

definition json_object :: "(json \<times> json) list \<Rightarrow> json" where
  "json_object mem = JDict (foldl (\<lambda>acc kv. AList.update (key_str (fst kv)) (snd kv) acc) [] mem)"

fun dict_update :: "json \<Rightarrow> json \<Rightarrow> exn + json" where
  "dict_update (JDict a) b =
     (let mem = map (\<lambda>kv. (JStr (fst kv), snd kv)) a in
      case b of
        JDict kvs \<Rightarrow> Inr (json_object (foldl (\<lambda>m kv. mem_update (JStr (fst kv)) (snd kv) m) mem kvs))
      | JStr s \<Rightarrow>
          (case merge_pairs 0 (map (\<lambda>c. JStr [c]) s) mem of
             Inl x \<Rightarrow> Inl x
           | Inr m \<Rightarrow> Inr (json_object m))
      | JList xs \<Rightarrow>
          (case merge_pairs 0 xs mem of
             Inl x \<Rightarrow> Inl x
           | Inr m \<Rightarrow> Inr (json_object m))
      | v \<Rightarrow> Inl (TypeError ([CHR 0x27] @ type_name v @ [CHR 0x27] @ '' object is not iterable'')))"
| "dict_update v w =
     Inl (AttributeError ([CHR 0x27] @ type_name v @ [CHR 0x27] @ '' object has no attribute '' @ [CHR 0x27] @ ''update'' @ [CHR 0x27]))"

text \<open>The assignments of the \<open>update_existing\<close> branch, up to \<open>device.save()\<close>.\<close>

definition device_update :: "(string \<times> json) list \<Rightarrow> device_row \<Rightarrow> exn + device_row" where
  "device_update info device =
     (let device1 = device
        \<lparr> device_name := py_or (py_or (dict_get info ''name'' JNull) (dict_get info ''deviceName'' JNull)) (device_name device),
          device_model := py_or (dict_get info ''model'' JNull) (device_model device),
          device_phone := py_or (dict_get info ''phone'' JNull) (device_phone device),
          device_code := py_or (dict_get info ''code'' JNull) (device_code device),
          is_active := is_active_bool (dict_get info ''isActive'' (JBool False)),
          last_seen := py_or (py_or (dict_get info ''time'' JNull) (dict_get info ''lastSeen'' JNull)) (last_seen device),
          battery_percentage :=
            (if dict_has info ''batteryPercentage'' then dict_get info ''batteryPercentage'' JNull
             else battery_percentage device),
          current_phone := py_or (py_or (dict_get info ''currentPhone'' JNull) (dict_get info ''phone'' JNull)) (current_phone device),
          current_identifier := py_or (dict_get info ''currentIdentifier'' JNull) (current_identifier device),
          device_time := py_or (dict_get info ''time'' JNull) (device_time device),
          bankcard := dict_get info ''bankcard'' (bankcard device) \<rparr>
      in
      if truthy (dict_get info ''systemInfo'' JNull) then
        (case dict_update (py_or (system_info device) (JDict [])) (dict_get info ''systemInfo'' (JDict [])) of
           Inl x \<Rightarrow> Inl x
         | Inr current_system_info \<Rightarrow>
             Inr (device1\<lparr>system_info := current_system_info, sync_status := ''syncing'',
                          sync_error_message := None\<rparr>))
      else Inr (device1\<lparr>sync_status := ''syncing'', sync_error_message := None\<rparr>))"

text \<open>
  The block under \<open>transaction.atomic()\<close>: the status of a known device is set to
  \<open>syncing\<close>, then the device is created from the \<open>defaults\<close>, or updated and
  saved, and assigned to the admin users. When the block raises, the transaction is
  rolled back: the caller keeps the store as it was before the block.
\<close>

fun sync_device_info :: "env \<Rightarrow> string \<Rightarrow> bool \<Rightarrow> json \<Rightarrow> state \<Rightarrow> exn + state" where
  "sync_device_info e did update_existing firebase_device_info (r, d) =
     (let d1 = (case map_of (devices d) did of
                  Some device \<Rightarrow>
                    d\<lparr>devices := AList.update did
                         (device\<lparr>sync_status := ''syncing'', sync_error_message := None\<rparr>) (devices d)\<rparr>
                | None \<Rightarrow> d)
      in
      case firebase_device_info of
        JDict info \<Rightarrow>
          (case map_of (devices d1) did of
             None \<Rightarrow>
               (case device_rejected e did (device_defaults info) of
                  Some x \<Rightarrow> Inl x
                | None \<Rightarrow>
                    Inr (r\<lparr>device_created := True\<rparr>,
                         d1\<lparr>devices := AList.update did
                              ((device_defaults info)\<lparr>assigned_to := List.union (admin_users e) []\<rparr>)
                              (devices d1)\<rparr>))
           | Some device0 \<Rightarrow>
               (let device = device0\<lparr>assigned_to := List.union (admin_users e) (assigned_to device0)\<rparr> in
                if update_existing then
                  (case device_update info device of
                     Inl x \<Rightarrow> Inl x
                   | Inr device' \<Rightarrow>
                       (case device_rejected e did device' of
                          Some x \<Rightarrow> Inl x
                        | None \<Rightarrow>
                            Inr (r\<lparr>device_updated := True\<rparr>,
                                 d1\<lparr>devices := AList.update did device' (devices d1)\<rparr>)))
                else
                  Inr (r\<lparr>device_updated := False\<rparr>,
                       d1\<lparr>devices := AList.update did device (devices d1)\<rparr>)))
      | v \<Rightarrow>
          Inl (AttributeError ([CHR 0x27] @ type_name v @ [CHR 0x27] @ '' object has no attribute '' @ [CHR 0x27] @ ''get'' @ [CHR 0x27])))"

section \<open>Sync orchestrator\<close>

text \<open>
  A phase of the run either completes with a new state or raises; the exception then
  carries the result dictionary and the store as they were when it was raised, which is
  what the handler at the end of \<open>hard_sync_device_from_firebase\<close> sees.
\<close>

type_synonym outcome = "(exn \<times> state) + state"

definition and_then :: "outcome \<Rightarrow> (state \<Rightarrow> outcome) \<Rightarrow> outcome" where
  "and_then x f = (case x of Inl failure \<Rightarrow> Inl failure | Inr s \<Rightarrow> f s)"

fun sync_messages :: "env \<Rightarrow> string \<Rightarrow> bool \<Rightarrow> state \<Rightarrow> outcome" where
  "sync_messages e did update_existing (r, d) =
     (case get_firebase_messages_for_device e did None of
        Inl x \<Rightarrow> Inl (x, (r, d))
      | Inr firebase_messages \<Rightarrow>
          (case py_len firebase_messages of
             Inl x \<Rightarrow> Inl (x, (r, d))
           | Inr n \<Rightarrow>
               (case py_items firebase_messages of
                  Inl x \<Rightarrow> Inl (x, (r\<lparr>messages_fetched := n\<rparr>, d))
                | Inr entries \<Rightarrow>
                    Inr (messages_loop e did update_existing entries (r\<lparr>messages_fetched := n\<rparr>, d)))))"

fun sync_notifications :: "env \<Rightarrow> string \<Rightarrow> bool \<Rightarrow> state \<Rightarrow> outcome" where
  "sync_notifications e did update_existing (r, d) =
     (case get_firebase_notifications_for_device e did of
        Inl x \<Rightarrow> Inl (x, (r, d))
      | Inr firebase_notifications \<Rightarrow>
          (case py_len firebase_notifications of
             Inl x \<Rightarrow> Inl (x, (r, d))
           | Inr n \<Rightarrow>
               (case py_items firebase_notifications of
                  Inl x \<Rightarrow> Inl (x, (r\<lparr>notifications_fetched := n\<rparr>, d))
                | Inr entries \<Rightarrow>
                    Inr (notifications_loop e did update_existing entries (r\<lparr>notifications_fetched := n\<rparr>, d)))))"

fun sync_contacts :: "env \<Rightarrow> string \<Rightarrow> bool \<Rightarrow> state \<Rightarrow> outcome" where
  "sync_contacts e did update_existing (r, d) =
     (case get_firebase_contacts_for_device e did of
        Inl x \<Rightarrow> Inl (x, (r, d))
      | Inr firebase_contacts \<Rightarrow>
          (case py_len firebase_contacts of
             Inl x \<Rightarrow> Inl (x, (r, d))
           | Inr n \<Rightarrow>
               (case py_items firebase_contacts of
                  Inl x \<Rightarrow> Inl (x, (r\<lparr>contacts_fetched := n\<rparr>, d))
                | Inr entries \<Rightarrow>
                    Inr (contacts_loop e did update_existing entries (r\<lparr>contacts_fetched := n\<rparr>, d)))))"

text \<open>
  The closing block: the device row is read again and its status, timestamps and count
  metadata are written. \<open>result['errors'][:500]\<close> keeps the first 500 list entries.
  An exception of the block (no such device, the store rejects the row) is caught and
  recorded in \<open>errors\<close>.
\<close>

definition sync_metadata_of :: "sync_result \<Rightarrow> (string \<times> nat) list" where
  "sync_metadata_of r =
     [(''last_sync_messages_count'', messages_fetched r),
      (''last_sync_notifications_count'', notifications_fetched r),
      (''last_sync_contacts_count'', contacts_fetched r),
      (''last_sync_messages_created'', messages_created r),
      (''last_sync_messages_updated'', messages_updated r),
      (''last_sync_notifications_created'', notifications_created r),
      (''last_sync_notifications_updated'', notifications_updated r),
      (''last_sync_contacts_created'', contacts_created r),
      (''last_sync_contacts_updated'', contacts_updated r)]"

definition final_device_row :: "nat \<Rightarrow> sync_result \<Rightarrow> device_row \<Rightarrow> device_row" where
  "final_device_row now r device =
     (let device1 =
        (if errors r \<noteq> [] then
           device\<lparr>sync_status := ''sync_failed'',
                  sync_error_message := Some (py_join ''; '' (take 500 (errors r)))\<rparr>
         else
           device\<lparr>sync_status := ''synced'', sync_error_message := None,
                  last_sync_at := Some now, last_hard_sync_at := Some now\<rparr>);
          device2 = (if messages_fetched r > 0 then device1\<lparr>messages_last_synced_at := Some now\<rparr> else device1);
          device3 = (if notifications_fetched r > 0 then device2\<lparr>notifications_last_synced_at := Some now\<rparr> else device2);
          device4 = (if contacts_fetched r > 0 then device3\<lparr>contacts_last_synced_at := Some now\<rparr> else device3)
      in device4\<lparr>sync_metadata := sync_metadata_of r\<rparr>)"

definition status_error :: "exn \<Rightarrow> string" where
  "status_error x = ''Error updating device sync status: '' @ str_exn x"

fun update_sync_status :: "env \<Rightarrow> string \<Rightarrow> state \<Rightarrow> state" where
  "update_sync_status e did (r, d) =
     (case map_of (devices d) did of
        None \<Rightarrow>
          (r\<lparr>errors := errors r @ [status_error (DoesNotExist ''Device matching query does not exist.'')]\<rparr>, d)
      | Some device \<Rightarrow>
          (let device' = final_device_row (timezone_now e) r device in
           case device_rejected e did device' of
             Some x \<Rightarrow> (r\<lparr>errors := errors r @ [status_error x]\<rparr>, d)
           | None \<Rightarrow> (r, d\<lparr>devices := AList.update did device' (devices d)\<rparr>)))"

text \<open>
  The body of the outer \<open>try\<close>. With no device data in the store the function appends
  an error and returns at once.
\<close>

definition hard_sync_try :: "env \<Rightarrow> string \<Rightarrow> bool \<Rightarrow> state \<Rightarrow> outcome" where
  "hard_sync_try e did update_existing s =
     (case get_firebase_device_info e did of
        Inl x \<Rightarrow> Inl (x, s)
      | Inr firebase_device_info \<Rightarrow>
          if \<not> truthy firebase_device_info then
            Inr ((fst s)\<lparr>errors := errors (fst s) @ [''No device data found in Firebase for device '' @ did]\<rparr>, snd s)
          else
            and_then
              (and_then
                (and_then
                  (and_then
                    (case sync_device_info e did update_existing firebase_device_info s of
                       Inl x \<Rightarrow> Inl (x, s)
                     | Inr s1 \<Rightarrow> Inr s1)
                    (sync_messages e did update_existing))
                  (sync_notifications e did update_existing))
                (sync_contacts e did update_existing))
              (\<lambda>s4. Inr (update_sync_status e did s4)))"

text \<open>
  The handler of the outer \<open>try\<close>: the error is recorded, and the device row, if there
  is one, is marked failed with the first 500 characters of the exception text.
\<close>

fun hard_sync_failed :: "string \<Rightarrow> exn \<Rightarrow> state \<Rightarrow> state" where
  "hard_sync_failed did x (r, d) =
     (r\<lparr>errors := errors r @ [''Hard sync failed: '' @ str_exn x]\<rparr>,
      case map_of (devices d) did of
        Some device \<Rightarrow>
          d\<lparr>devices := AList.update did
               (device\<lparr>sync_status := ''sync_failed'',
                       sync_error_message := Some (take 500 (str_exn x))\<rparr>) (devices d)\<rparr>
      | None \<Rightarrow> d)"

definition hard_sync_device_from_firebase :: "env \<Rightarrow> string \<Rightarrow> bool \<Rightarrow> db \<Rightarrow> sync_result \<times> db" where
  "hard_sync_device_from_firebase e did update_existing d =
     (case hard_sync_try e did update_existing (new_result did, d) of
        Inr s \<Rightarrow> s
      | Inl (x, s) \<Rightarrow> hard_sync_failed did x s)"

section \<open>Messages-only sync\<close>

text \<open>The result dictionary of \<open>sync_messages_from_firebase\<close>.\<close>

record messages_sync_result =
  ms_device_id :: string
  ms_messages_fetched :: nat
  ms_messages_created :: nat
  ms_messages_skipped :: nat
  ms_errors :: "string list"
  firebase_cleaned :: bool

text \<open>
  \<open>clean_firebase_messages\<close> raises when the SDK is missing or initialisation fails;
  failures on single paths are caught inside it. The deletions it performs in the remote
  store are outside the state of this development.
\<close>

definition clean_firebase_messages :: "env \<Rightarrow> string \<Rightarrow> int \<Rightarrow> exn + unit" where
  "clean_firebase_messages e did keep_latest =
     (if \<not> FIREBASE_AVAILABLE e then Inl (ImportError ''Firebase Admin SDK not available'')
      else case initialize_firebase e of Inl x \<Rightarrow> Inl x | Inr _ \<Rightarrow> Inr ())"

text \<open>
  One iteration of the loop: the local counters \<open>created_count\<close> and
  \<open>skipped_count\<close>, the error list and the store. The existence check comes before the
  type is defaulted and the row created. A write that the store rejects is caught for
  this entry like any other exception, and is taken to leave the enclosing transaction
  usable.
\<close>

fun messages_only_step ::
  "env \<Rightarrow> string \<Rightarrow> string \<times> json \<Rightarrow> nat \<times> nat \<times> string list \<times> db \<Rightarrow> nat \<times> nat \<times> string list \<times> db" where
  "messages_only_step e did (timestamp_str, message_data) (created_count, skipped_count, errs, d) =
     (case py_int timestamp_str of
        Inl x \<Rightarrow> (created_count, skipped_count, errs @ [message_error timestamp_str x], d)
      | Inr timestamp \<Rightarrow>
          (case message_fields message_data of
             None \<Rightarrow> (created_count, skipped_count + 1, errs, d)
           | Some raw \<Rightarrow>
               if messages d (did, timestamp) \<noteq> None then (created_count, skipped_count + 1, errs, d)
               else
                 (let new = raw\<lparr>message_type := default_message_type (message_type raw)\<rparr> in
                  case message_rejected e (did, timestamp) new of
                    Some x \<Rightarrow> (created_count, skipped_count, errs @ [message_error timestamp_str x], d)
                  | None \<Rightarrow>
                      (created_count + 1, skipped_count, errs,
                       d\<lparr>messages := (messages d)((did, timestamp) \<mapsto> new)\<rparr>))))"

fun messages_only_loop ::
  "env \<Rightarrow> string \<Rightarrow> (string \<times> json) list \<Rightarrow> nat \<times> nat \<times> string list \<times> db \<Rightarrow> nat \<times> nat \<times> string list \<times> db" where
  "messages_only_loop e did [] s = s"
| "messages_only_loop e did (entry # entries) s =
     messages_only_loop e did entries (messages_only_step e did entry s)"

definition new_messages_result :: "string \<Rightarrow> messages_sync_result" where
  "new_messages_result did =
     \<lparr> ms_device_id = did, ms_messages_fetched = 0, ms_messages_created = 0,
       ms_messages_skipped = 0, ms_errors = [], firebase_cleaned = False \<rparr>"

definition sync_failed :: "messages_sync_result \<Rightarrow> exn \<Rightarrow> messages_sync_result" where
  "sync_failed r x = r\<lparr>ms_errors := ms_errors r @ [''Sync failed: '' @ str_exn x]\<rparr>"

definition sync_messages_from_firebase ::
  "env \<Rightarrow> string \<Rightarrow> int \<Rightarrow> db \<Rightarrow> messages_sync_result \<times> db" where
  "sync_messages_from_firebase e did keep_latest d =
     (let r = new_messages_result did in
      case map_of (devices d) did of
        None \<Rightarrow> (r\<lparr>ms_errors := ms_errors r @ [''Device '' @ did @ '' not found in Django database'']\<rparr>, d)
      | Some device \<Rightarrow>
          (case get_firebase_messages_for_device e did None of
             Inl x \<Rightarrow> (sync_failed r x, d)
           | Inr firebase_messages \<Rightarrow>
               (case py_len firebase_messages of
                  Inl x \<Rightarrow> (sync_failed r x, d)
                | Inr n \<Rightarrow>
                    (let r1 = r\<lparr>ms_messages_fetched := n\<rparr> in
                     if \<not> truthy firebase_messages then (r1, d)
                     else
                       (case py_items firebase_messages of
                          Inl x \<Rightarrow> (sync_failed r1 x, d)
                        | Inr entries \<Rightarrow>
                            (case messages_only_loop e did entries (0, 0, ms_errors r1, d) of
                               (created_count, skipped_count, errs, d') \<Rightarrow>
                                 (let r2 = r1\<lparr>ms_errors := errs, ms_messages_created := created_count,
                                              ms_messages_skipped := skipped_count\<rparr> in
                                  case clean_firebase_messages e did keep_latest of
                                    Inl x \<Rightarrow>
                                      (r2\<lparr>ms_errors := ms_errors r2 @ [''Error cleaning Firebase: '' @ str_exn x]\<rparr>, d')
                                  | Inr _ \<Rightarrow> (r2\<lparr>firebase_cleaned := True\<rparr>, d'))))))))"

section \<open>Fleet-wide hard sync\<close>

text \<open>The result dictionary of \<open>hard_sync_all_devices_from_firebase\<close>.\<close>

record all_result =
  total_devices_processed :: nat
  devices_synced :: nat
  devices_failed :: nat
  total_messages_created :: nat
  total_messages_updated :: nat
  total_notifications_created :: nat
  total_notifications_updated :: nat
  total_contacts_created :: nat
  total_contacts_updated :: nat
  device_results :: "sync_result list"
  all_errors :: "string list"

definition new_all_result :: all_result where
  "new_all_result =
     \<lparr> total_devices_processed = 0, devices_synced = 0, devices_failed = 0,
       total_messages_created = 0, total_messages_updated = 0,
       total_notifications_created = 0, total_notifications_updated = 0,
       total_contacts_created = 0, total_contacts_updated = 0,
       device_results = [], all_errors = [] \<rparr>"

text \<open>
  Python sets are duplicate-free lists here; the order in which a set is iterated is not
  fixed by Python, and the lists fix one.
\<close>

definition django_device_ids :: "db \<Rightarrow> string list" where
  "django_device_ids d = remdups (map fst (devices d))"

fun dict_keys :: "json \<Rightarrow> string list" where
  "dict_keys (JDict kvs) = map fst kvs"
| "dict_keys v = []"

fun has_device_subtree :: "json \<Rightarrow> bool" where
  "has_device_subtree (JDict value) =
     (dict_has value ''messages'' \<or> dict_has value ''Notification'' \<or> dict_has value ''Contact'')"
| "has_device_subtree v = False"

fun fastpay_device_ids :: "json \<Rightarrow> string list" where
  "fastpay_device_ids (JDict kvs) = map fst (filter (\<lambda>kv. has_device_subtree (snd kv)) kvs)"
| "fastpay_device_ids v = []"

text \<open>The discovery under the inner \<open>try\<close>: any exception abandons it as a whole.\<close>

definition firebase_device_ids :: "env \<Rightarrow> exn + string list" where
  "firebase_device_ids e =
     (case initialize_firebase e of
        Inl x \<Rightarrow> Inl x
      | Inr _ \<Rightarrow>
          (case reference_get e ''device'' of
             Inl x \<Rightarrow> Inl x
           | Inr device_data \<Rightarrow>
               (case reference_get e ''fastpay'' of
                  Inl x \<Rightarrow> Inl x
                | Inr fastpay_data \<Rightarrow>
                    Inr (remdups
                      ((if truthy device_data then dict_keys device_data else []) @
                       (if truthy fastpay_data then fastpay_device_ids fastpay_data else []))))))"

definition all_device_ids :: "env \<Rightarrow> db \<Rightarrow> string list" where
  "all_device_ids e d =
     (case firebase_device_ids e of
        Inl x \<Rightarrow> django_device_ids d
      | Inr ids \<Rightarrow> if ids \<noteq> [] then remdups (django_device_ids d @ ids) else django_device_ids d)"

text \<open>
  One iteration of the fleet loop. The per-device sync catches every exception itself, so
  the handler around the call is not reached.
\<close>

fun hard_sync_all_step :: "env \<Rightarrow> bool \<Rightarrow> string \<Rightarrow> all_result \<times> db \<Rightarrow> all_result \<times> db" where
  "hard_sync_all_step e update_existing did (result, d) =
     (case hard_sync_device_from_firebase e did update_existing d of
        (device_result, d') \<Rightarrow>
          (result
             \<lparr> device_results := device_results result @ [device_result],
               devices_failed := (if errors device_result \<noteq> [] then devices_failed result + 1 else devices_failed result),
               devices_synced := (if errors device_result \<noteq> [] then devices_synced result else devices_synced result + 1),
               total_messages_created := total_messages_created result + messages_created device_result,
               total_messages_updated := total_messages_updated result + messages_updated device_result,
               total_notifications_created := total_notifications_created result + notifications_created device_result,
               total_notifications_updated := total_notifications_updated result + notifications_updated device_result,
               total_contacts_created := total_contacts_created result + contacts_created device_result,
               total_contacts_updated := total_contacts_updated result + contacts_updated device_result \<rparr>,
           d'))"

fun hard_sync_all_loop :: "env \<Rightarrow> bool \<Rightarrow> string list \<Rightarrow> all_result \<times> db \<Rightarrow> all_result \<times> db" where
  "hard_sync_all_loop e update_existing [] s = s"
| "hard_sync_all_loop e update_existing (did # dids) s =
     hard_sync_all_loop e update_existing dids (hard_sync_all_step e update_existing did s)"

definition hard_sync_all_devices_from_firebase :: "env \<Rightarrow> bool \<Rightarrow> db \<Rightarrow> all_result \<times> db" where
  "hard_sync_all_devices_from_firebase e update_existing d =
     (let ids = all_device_ids e d in
      hard_sync_all_loop e update_existing ids
        (new_all_result\<lparr>total_devices_processed := length ids\<rparr>, d))"

section \<open>Auxiliary notions for the properties\<close>

text \<open>A list of candidate paths yields no data: every read raises or returns a falsy value.\<close>

definition no_data :: "env \<Rightarrow> string list \<Rightarrow> bool" where
  "no_data e paths =
     list_all (\<lambda>path. case reference_get e path of Inl x \<Rightarrow> True | Inr data \<Rightarrow> \<not> truthy data) paths"

section \<open>Example stores and databases\<close>

definition empty_db :: db where
  "empty_db = \<lparr> devices = [], messages = (\<lambda>k. None), notifications = (\<lambda>k. None),
                contacts = (\<lambda>k. None) \<rparr>"

definition synced_device :: device_row where
  "synced_device =
     \<lparr> device_name = JStr ''Pixel 7'', device_model = JStr ''Google Pixel 7'', device_phone = JNull,
       device_code = JStr ''ABC123'', is_active = True, last_seen = JNum 1700000000000,
       battery_percentage = JNum 80, current_phone = JNull, current_identifier = JNull,
       device_time = JNum 1700000000000, bankcard = JStr ''BANKCARD'', system_info = JDict [],
       last_sync_at = Some 1700000000, last_hard_sync_at = Some 1700000000,
       sync_status = ''synced'', sync_error_message = None,
       messages_last_synced_at = None, notifications_last_synced_at = None,
       contacts_last_synced_at = None, sync_metadata = [], assigned_to = [] \<rparr>"

definition db_with_synced_device :: db where
  "db_with_synced_device = empty_db\<lparr>devices := [(''D1'', synced_device)]\<rparr>"

text \<open>
  An environment with the SDK installed and initialised, reading from a given store, and
  a relational store that takes every row.
\<close>

definition online :: "(string \<Rightarrow> exn + json) \<Rightarrow> env" where
  "online store = \<lparr> FIREBASE_AVAILABLE = True, initialize_error = None, reference_get = store,
                    timezone_now = 1700000500, admin_users = [''admin@fastpay.com''],
                    device_rejected = (\<lambda>k row. None), message_rejected = (\<lambda>k row. None),
                    notification_rejected = (\<lambda>k row. None), contact_rejected = (\<lambda>k row. None) \<rparr>"

text \<open>The same without the Firebase Admin SDK.\<close>

definition sdk_missing :: "(string \<Rightarrow> exn + json) \<Rightarrow> env" where
  "sdk_missing store = (online store)\<lparr>FIREBASE_AVAILABLE := False\<rparr>"

definition no_data_store :: "string \<Rightarrow> exn + json" where
  "no_data_store path = Inr JNull"

text \<open>
  Device \<open>D1\<close> with seven messages filed under push identifiers instead of timestamps.
\<close>

definition device_info_D1 :: json where
  "device_info_D1 = JDict [(''name'', JStr ''Pixel 7''), (''isActive'', JBool True)]"

definition push_id_messages :: json where
  "push_id_messages =
     JDict [(''-NxA01'', JStr ''received~5550001~one''),
            (''-NxA02'', JStr ''received~5550002~two''),
            (''-NxA03'', JStr ''received~5550003~three''),
            (''-NxA04'', JStr ''received~5550004~four''),
            (''-NxA05'', JStr ''received~5550005~five''),
            (''-NxA06'', JStr ''received~5550006~six''),
            (''-NxA07'', JStr ''received~5550007~seven'')]"

definition push_id_store :: "string \<Rightarrow> exn + json" where
  "push_id_store path =
     (if path = ''device/D1'' then Inr device_info_D1
      else if path = ''fastpay/D1/messages'' then Inr push_id_messages
      else Inr JNull)"

section \<open>Properties\<close>

subsection \<open>Evaluation of the Python helpers\<close>

lemma first_data_no_data: "no_data e paths \<Longrightarrow> first_data e paths = JDict []"
  by (induction paths) (auto simp: no_data_def split: sum.splits)

lemma first_data_no_data_store [simp]: "first_data (online no_data_store) paths = JDict []"
  by (induction paths) (simp_all add: online_def no_data_store_def)

lemma online_simps [simp]:
  "FIREBASE_AVAILABLE (online store)"
  "initialize_error (online store) = None"
  "reference_get (online store) = store"
  "timezone_now (online store) = 1700000500"
  "admin_users (online store) = [''admin@fastpay.com'']"
  "device_rejected (online store) = (\<lambda>k row. None)"
  "message_rejected (online store) = (\<lambda>k row. None)"
  "notification_rejected (online store) = (\<lambda>k row. None)"
  "contact_rejected (online store) = (\<lambda>k row. None)"
  by (simp_all add: online_def)

lemma initialize_online [simp]: "initialize_firebase (online store) = Inr True"
  by (simp add: initialize_firebase_def)


subsection \<open>Soft-fail fetch\<close>

text \<open>
  C5, as the code has it. With the Firebase Admin SDK importable, a fetcher whose client
  fails to initialise, or whose candidate paths all raise or hold no data, returns the
  empty mapping \<open>{}\<close> and raises nothing. Without the SDK every fetcher raises
  \<open>ImportError\<close> to its caller. Both hold for the four fetchers, for every device
  identifier, and for the message fetcher with any \<open>limit\<close>.
\<close>

theorem fetch_soft_fail:
  "(FIREBASE_AVAILABLE e \<longrightarrow>
       (initialize_error e \<noteq> None \<or> no_data e (messages_paths did)
          \<longrightarrow> get_firebase_messages_for_device e did limit = Inr (JDict []))
     \<and> (initialize_error e \<noteq> None \<or> no_data e (notifications_paths did)
          \<longrightarrow> get_firebase_notifications_for_device e did = Inr (JDict []))
     \<and> (initialize_error e \<noteq> None \<or> no_data e (contacts_paths did)
          \<longrightarrow> get_firebase_contacts_for_device e did = Inr (JDict []))
     \<and> (initialize_error e \<noteq> None \<or> no_data e (device_info_paths did)
          \<longrightarrow> get_firebase_device_info e did = Inr (JDict [])))
   \<and> (\<not> FIREBASE_AVAILABLE e \<longrightarrow>
       get_firebase_messages_for_device e did limit
         = Inl (ImportError ''Firebase Admin SDK not available'')
     \<and> get_firebase_notifications_for_device e did
         = Inl (ImportError ''Firebase Admin SDK not available'')
     \<and> get_firebase_contacts_for_device e did
         = Inl (ImportError ''Firebase Admin SDK not available'')
     \<and> get_firebase_device_info e did
         = Inl (ImportError ''Firebase Admin SDK not available''))"
  by (auto simp: get_firebase_messages_for_device_def get_firebase_notifications_for_device_def
        get_firebase_contacts_for_device_def get_firebase_device_info_def
        initialize_firebase_def first_data_no_data Let_def split: option.splits)

text \<open>
  Two instances: a reachable store that holds nothing for device \<open>D1\<close>, and the same
  store without the SDK.
\<close>

theorem fetch_soft_fail_witness:
  "FIREBASE_AVAILABLE (online no_data_store)
   \<and> no_data (online no_data_store) (messages_paths ''D1'')
   \<and> get_firebase_messages_for_device (online no_data_store) ''D1'' (Some 100) = Inr (JDict [])
   \<and> get_firebase_notifications_for_device (online no_data_store) ''D1'' = Inr (JDict [])
   \<and> get_firebase_contacts_for_device (online no_data_store) ''D1'' = Inr (JDict [])
   \<and> get_firebase_device_info (online no_data_store) ''D1'' = Inr (JDict [])
   \<and> \<not> FIREBASE_AVAILABLE (sdk_missing no_data_store)
   \<and> get_firebase_messages_for_device (sdk_missing no_data_store) ''D1'' (Some 100)
       = Inl (ImportError ''Firebase Admin SDK not available'')
   \<and> get_firebase_notifications_for_device (sdk_missing no_data_store) ''D1''
       = Inl (ImportError ''Firebase Admin SDK not available'')
   \<and> get_firebase_contacts_for_device (sdk_missing no_data_store) ''D1''
       = Inl (ImportError ''Firebase Admin SDK not available'')
   \<and> get_firebase_device_info (sdk_missing no_data_store) ''D1''
       = Inl (ImportError ''Firebase Admin SDK not available'')"
proof -
  have nd: "no_data (online no_data_store) paths" for paths
    by (induction paths) (simp_all add: no_data_def no_data_store_def)
  have off: "\<not> FIREBASE_AVAILABLE (sdk_missing no_data_store)"
    by (simp add: sdk_missing_def)
  show ?thesis
    using fetch_soft_fail [of "online no_data_store" "''D1''" "Some 100"]
          fetch_soft_fail [of "sdk_missing no_data_store" "''D1''" "Some 100"] nd off
    by simp
qed

text \<open>
  Without the SDK the store is unavailable, and the fetcher raises \<open>ImportError\<close> to
  its caller instead of returning an empty mapping.
\<close>

theorem fetch_raises_without_sdk:
  "no_data (sdk_missing no_data_store) (messages_paths ''D1'')
   \<and> get_firebase_messages_for_device (sdk_missing no_data_store) ''D1'' None
       = Inl (ImportError ''Firebase Admin SDK not available'')"
  by (simp add: get_firebase_messages_for_device_def sdk_missing_def online_def no_data_def
        no_data_store_def messages_paths_def)

subsection \<open>Status after a run that finds no device data\<close>

lemma device_info_no_data: "get_firebase_device_info (online no_data_store) did = Inr (JDict [])"
  by (simp add: get_firebase_device_info_def)

text \<open>
  C1 at a failing input: device \<open>D1\<close> is stored as \<open>synced\<close> and the external
  store holds no device data for it. The run appends an error and returns at once; the
  persisted status is still \<open>synced\<close> and no error message is persisted.
\<close>

theorem no_device_data_keeps_synced:
  "errors (fst (hard_sync_device_from_firebase (online no_data_store) ''D1'' True db_with_synced_device))
     = [''No device data found in Firebase for device D1'']
   \<and> map_option sync_status
       (map_of (devices (snd (hard_sync_device_from_firebase (online no_data_store) ''D1'' True
          db_with_synced_device))) ''D1'') = Some ''synced''
   \<and> map_option sync_error_message
       (map_of (devices (snd (hard_sync_device_from_firebase (online no_data_store) ''D1'' True
          db_with_synced_device))) ''D1'') = Some None"
  by (simp add: hard_sync_device_from_firebase_def hard_sync_try_def device_info_no_data
        new_result_def db_with_synced_device_def synced_device_def empty_db_def)

end
